theory Spec2Isabelle
  imports Complex_Main "HOL-Library.Word" "HOL-Library.Sublist"
begin

section \<open>JavaScript strings\<close>

text \<open>
  A JavaScript string is a sequence of 16-bit code units. \<open>js\<close> embeds an ASCII
  literal of the source.
\<close>

type_synonym jschar = "16 word"
type_synonym jsstring = "jschar list"

definition js :: "string \<Rightarrow> jsstring" where
  "js s = map of_char s"

definition semicolon :: jschar where
  "semicolon = 0x3B"

definition comma :: jschar where
  "comma = 0x2C"

definition dquote :: jschar where
  "dquote = 0x22"

definition apostrophe :: jschar where
  "apostrophe = 0x27"

text \<open>
  \<open>String.prototype.split(sep)\<close> for a separator of one code unit: the segments
  between the separators, in order; the empty string gives one empty segment.
\<close>

fun split :: "'a \<Rightarrow> 'a list \<Rightarrow> 'a list list" where
  "split sep [] = [[]]"
| "split sep (c # cs) =
     (if c = sep then [] # split sep cs
      else (let r = split sep cs in (c # hd r) # tl r))"

text \<open>\<open>Array.prototype.join(sep)\<close> on an array of strings.\<close>

fun join :: "'a list \<Rightarrow> 'a list list \<Rightarrow> 'a list" where
  "join sep [] = []"
| "join sep [s] = s"
| "join sep (s # t # ss) = s @ sep @ join sep (t # ss)"

text \<open>
  \<open>String.prototype.trim()\<close> removes the white space and line terminator code
  units of ECMAScript from both ends.
\<close>

definition isWhiteSpace :: "jschar \<Rightarrow> bool" where
  "isWhiteSpace c = (c \<in> {0x9, 0xA, 0xB, 0xC, 0xD, 0x20, 0xA0, 0x1680, 0x2000, 0x2001,
     0x2002, 0x2003, 0x2004, 0x2005, 0x2006, 0x2007, 0x2008, 0x2009, 0x200A, 0x2028, 0x2029,
     0x202F, 0x205F, 0x3000, 0xFEFF})"

definition trim :: "jsstring \<Rightarrow> jsstring" where
  "trim s = rev (dropWhile isWhiteSpace (rev (dropWhile isWhiteSpace s)))"

text \<open>
  The conversion of a string to a scalar value string, which \<open>FormData.append\<close>
  applies to a string value: a lead surrogate followed by a trail surrogate is kept, any
  other surrogate code unit becomes U+FFFD.
\<close>

definition isLeadSurrogate :: "jschar \<Rightarrow> bool" where
  "isLeadSurrogate c = (0xD800 \<le> c \<and> c \<le> 0xDBFF)"

definition isTrailSurrogate :: "jschar \<Rightarrow> bool" where
  "isTrailSurrogate c = (0xDC00 \<le> c \<and> c \<le> 0xDFFF)"

fun toUSVString :: "jsstring \<Rightarrow> jsstring" where
  "toUSVString [] = []"
| "toUSVString [c] = (if isLeadSurrogate c \<or> isTrailSurrogate c then [0xFFFD] else [c])"
| "toUSVString (c # d # cs) =
     (if isLeadSurrogate c
      then (if isTrailSurrogate d then c # d # toUSVString cs
            else 0xFFFD # toUSVString (d # cs))
      else if isTrailSurrogate c then 0xFFFD # toUSVString (d # cs)
      else c # toUSVString (d # cs))"

text \<open>The decimal rendering of a non-negative integer in a template literal.\<close>

fun digits :: "nat \<Rightarrow> jsstring" where
  "digits n = (if n < 10 then [of_nat (48 + n)]
               else digits (n div 10) @ [of_nat (48 + n mod 10)])"

declare digits.simps [simp del]

section \<open>Values, requests and the platform\<close>

text \<open>
  JSON-like values; the number type is a parameter, since this module never computes
  with a number. \<open>JBuiltin\<close> is a built-in function object, by its name: what reading
  an inherited method gives.
\<close>

datatype 'n jsvalue =
    JUndefined
  | JNull
  | JBool bool
  | JNumber 'n
  | JString jsstring
  | JArray "'n jsvalue list"
  | JObject "(jsstring \<times> 'n jsvalue) list"
  | JBuiltin jsstring

type_synonym bytes = "8 word list"

datatype formvalue = Text jsstring | Blob bytes

type_synonym FormData = "(jsstring \<times> formvalue) list"

datatype request = GET jsstring | POST jsstring FormData

text \<open>
  A response as this module reads it: \<open>status\<close>, \<open>statusText\<close>, and what
  \<open>res.json()\<close> settles to (\<open>Inl\<close> the decoder's rejection).
\<close>

record 'n Response =
  status :: nat
  statusText :: jsstring
  json :: "jsstring + 'n jsvalue"

text \<open>
  A settled \<open>fetch\<close> promise. \<open>Rejected\<close> carries the text that
  \<open>error?.cause || error\<close> renders to inside a template literal.
\<close>

datatype 'n settled = Rejected jsstring | Fulfilled "'n Response"

text \<open>
  The collaborators: the network behind \<open>fetch\<close>, the file system behind
  \<open>readFile\<close> (\<open>Inl\<close> its rejection), \<open>JSON.stringify\<close> on a request
  configuration, and the \<open>URL\<close> constructor \<open>new URL(input, base)\<close>, which
  throws (\<open>None\<close>) when the base cannot be resolved against. Within one call the
  network is a function of the request.
\<close>

record 'n platform =
  fetch :: "request \<Rightarrow> 'n settled"
  readFile :: "jsstring \<Rightarrow> jsstring + bytes"
  JSON_stringify :: "'n jsvalue \<Rightarrow> jsstring"
  URL :: "jsstring \<Rightarrow> jsstring \<Rightarrow> jsstring option"

text \<open>
  What a call can reject with: an \<open>Error\<close> made by this module, with its message,
  or an error of a collaborator passed on unchanged.
\<close>

datatype error =
    Error jsstring
  | ReadFileError jsstring
  | InvalidURL
  | DecodeError jsstring
  | NullPropertyRead

text \<open>The observable effects of a call, in the order they happen.\<close>

datatype event =
    Fetch request
  | ReadFile jsstring
  | Warn jsstring
  | Debug jsstring

fun requests :: "event list \<Rightarrow> request list" where
  "requests [] = []"
| "requests (Fetch rq # es) = rq # requests es"
| "requests (e # es) = requests es"

fun isPOST :: "request \<Rightarrow> bool" where
  "isPOST (POST u b) = True"
| "isPOST (GET u) = False"

fun warnings :: "event list \<Rightarrow> jsstring list" where
  "warnings [] = []"
| "warnings (Warn m # es) = m # warnings es"
| "warnings (e # es) = warnings es"

text \<open>
  The status codes of HTTP are three-digit integers (RFC 9110, section 15).
\<close>

definition httpStatusCode :: "nat \<Rightarrow> bool" where
  "httpStatusCode s = (100 \<le> s \<and> s \<le> 999)"

section \<open>The repository: machine-learning.repository.ts\<close>

definition errorPrefix :: jsstring where
  "errorPrefix = js ''Machine learning request''"

text \<open>
  The value bound to \<open>r\<close> in \<open>find_working_server\<close>: the response of the probe,
  or the object \<open>{ status: 0, text: 'nop' }\<close> that the catch handler returns.
\<close>

datatype 'n reply = Reply "'n Response" | Nop

fun reply_status :: "'n reply \<Rightarrow> nat" where
  "reply_status (Reply r) = status r"
| "reply_status Nop = 0"

text \<open>One probe: \<open>fetch(path, { method: 'GET' }).catch(...)\<close>.\<close>

definition ping :: "'n platform \<Rightarrow> jsstring \<Rightarrow> 'n reply \<times> event list" where
  "ping P path =
     (case fetch P (GET path) of
        Rejected cause \<Rightarrow>
          (Nop, [Fetch (GET path),
                 Warn (errorPrefix @ js '' ping to '' @ [dquote] @ path @ [dquote]
                       @ js '' failed with '' @ cause)])
      | Fulfilled r \<Rightarrow> (Reply r, [Fetch (GET path)]))"

definition noServerMessage :: jsstring where
  "noServerMessage = errorPrefix @ js '': no machine learning server found.''"

text \<open>
  The \<open>for\<close> loop of \<open>find_working_server\<close> together with the \<open>throw\<close> that
  follows it.
\<close>

fun probe_loop :: "'n platform \<Rightarrow> jsstring list \<Rightarrow> (error + jsstring) \<times> event list" where
  "probe_loop P [] = (Inl (Error noServerMessage), [])"
| "probe_loop P (path # paths) =
     (case ping P path of (r, ev) \<Rightarrow>
        if reply_status r = 200
        then (Inr path, ev @ [Debug (js ''Response from '' @ path)])
        else (case probe_loop P paths of (res, ev') \<Rightarrow> (res, ev @ ev')))"

definition find_working_server ::
  "'n platform \<Rightarrow> jsstring \<Rightarrow> (error + jsstring) \<times> event list" where
  "find_working_server P url = probe_loop P (map trim (split semicolon url))"

text \<open>
  A payload object, by the keys it has. The type \<open>ModelPayload\<close> is the union
  \<open>{ imagePath: string } | { text: string }\<close>; \<open>getFormData\<close> tests the keys with
  \<open>in\<close>. A string appended to the form is stored as a scalar value string.
\<close>

record ModelPayload =
  imagePath :: "jsstring option"
  text' :: "jsstring option"

definition getFormData ::
  "'n platform \<Rightarrow> ModelPayload \<Rightarrow> 'n jsvalue \<Rightarrow> (error + FormData) \<times> event list" where
  "getFormData P payload config =
     (let formData = [(js ''entries'', Text (toUSVString (JSON_stringify P config)))] in
      case imagePath payload of
        Some p \<Rightarrow>
          (case readFile P p of
             Inl e \<Rightarrow> (Inl (ReadFileError e), [ReadFile p])
           | Inr b \<Rightarrow> (Inr (formData @ [(js ''image'', Blob b)]), [ReadFile p]))
      | None \<Rightarrow>
          (case text' payload of
             Some t \<Rightarrow> (Inr (formData @ [(js ''text'', Text (toUSVString t))]), [])
           | None \<Rightarrow> (Inl (Error (js ''Invalid input'')), [])))"

definition dispatchFailedMessage :: "jsstring \<Rightarrow> jsstring \<Rightarrow> jsstring" where
  "dispatchFailedMessage workingurl cause =
     errorPrefix @ js '' to '' @ [dquote] @ workingurl @ [dquote] @ js '' failed with '' @ cause"

definition rejectedMessage :: "jsstring \<Rightarrow> nat \<Rightarrow> jsstring \<Rightarrow> jsstring" where
  "rejectedMessage config s reason =
     errorPrefix @ js '' '' @ [apostrophe] @ config @ [apostrophe]
     @ js '' failed with status '' @ digits s @ js '': '' @ reason"

definition predict ::
  "'n platform \<Rightarrow> jsstring \<Rightarrow> ModelPayload \<Rightarrow> 'n jsvalue \<Rightarrow> (error + 'n jsvalue) \<times> event list" where
  "predict P url payload config =
     (case getFormData P payload config of
        (Inl e, ev0) \<Rightarrow> (Inl e, ev0)
      | (Inr formData, ev0) \<Rightarrow>
          (let ev1 = ev0 @ [Debug (js ''Predicting with '' @ join [comma] (split semicolon url))] in
           case find_working_server P url of
             (Inl e, ev2) \<Rightarrow> (Inl e, ev1 @ ev2)
           | (Inr workingurl, ev2) \<Rightarrow>
               (case URL P (js ''/predict'') workingurl of
                  None \<Rightarrow> (Inl InvalidURL, ev1 @ ev2)
                | Some target \<Rightarrow>
                    (let ev3 = ev1 @ ev2 @ [Fetch (POST target formData)] in
                     case fetch P (POST target formData) of
                       Rejected cause \<Rightarrow>
                         (Inl (Error (dispatchFailedMessage workingurl cause)), ev3)
                     | Fulfilled res \<Rightarrow>
                         if status res \<ge> 400
                         then (Inl (Error (rejectedMessage (JSON_stringify P config)
                                             (status res) (statusText res))), ev3)
                         else (case json res of
                                 Inl e \<Rightarrow> (Inl (DecodeError e), ev3)
                               | Inr v \<Rightarrow> (Inr v, ev3))))))"

text \<open>
  Reading a property of a decoded response, for the names this module reads:
  \<open>imageHeight\<close>, \<open>imageWidth\<close> and the two members of \<open>ModelTask\<close>. Reading
  from \<open>null\<close> or \<open>undefined\<close> throws a TypeError. An object gives the value stored
  under the key, or \<open>undefined\<close>. A string inherits the method \<open>search\<close> from
  \<open>String.prototype\<close> and has none of the other names; numbers, booleans, arrays and
  functions have none of them.
\<close>

fun property :: "'n jsvalue \<Rightarrow> jsstring \<Rightarrow> 'n jsvalue" where
  "property (JObject kvs) k = (case map_of kvs k of Some v \<Rightarrow> v | None \<Rightarrow> JUndefined)"
| "property (JString s) k =
     (if k = js ''search'' then JBuiltin (js ''String.prototype.search'') else JUndefined)"
| "property v k = JUndefined"

fun nullish :: "'n jsvalue \<Rightarrow> bool" where
  "nullish JNull = True"
| "nullish JUndefined = True"
| "nullish v = False"

definition get :: "'n jsvalue \<Rightarrow> jsstring \<Rightarrow> error + 'n jsvalue" where
  "get v k = (if nullish v then Inl NullPropertyRead else Inr (property v k))"

text \<open>
  Modelled from the spec: the members of the enums \<open>ModelTask\<close> and \<open>ModelType\<close>,
  which are declared in \<open>src/interfaces/machine-learning.interface\<close>. The spec names
  the tasks \<open>facial_recognition\<close> and \<open>search\<close> and the model types \<open>detection\<close>,
  \<open>recognition\<close>, \<open>visual\<close> and \<open>textual\<close>.
\<close>

definition FACIAL_RECOGNITION :: jsstring where
  "FACIAL_RECOGNITION = js ''facial_recognition''"

definition SEARCH :: jsstring where
  "SEARCH = js ''search''"

definition DETECTION :: jsstring where
  "DETECTION = js ''detection''"

definition RECOGNITION :: jsstring where
  "RECOGNITION = js ''recognition''"

definition VISUAL :: jsstring where
  "VISUAL = js ''visual''"

definition TEXTUAL :: jsstring where
  "TEXTUAL = js ''textual''"

text \<open>The \<open>request\<close> objects of the three public operations.\<close>

definition detectFaces_request :: "jsstring \<Rightarrow> 'n \<Rightarrow> 'n jsvalue" where
  "detectFaces_request modelName minScore =
     JObject [(FACIAL_RECOGNITION,
       JObject [(DETECTION, JObject [(js ''modelName'', JString modelName),
                                     (js ''options'', JObject [(js ''minScore'', JNumber minScore)])]),
                (RECOGNITION, JObject [(js ''modelName'', JString modelName)])])]"

definition encodeImage_request :: "jsstring \<Rightarrow> 'n jsvalue" where
  "encodeImage_request modelName =
     JObject [(SEARCH, JObject [(VISUAL, JObject [(js ''modelName'', JString modelName)])])]"

definition encodeText_request :: "jsstring \<Rightarrow> 'n jsvalue" where
  "encodeText_request modelName =
     JObject [(SEARCH, JObject [(TEXTUAL, JObject [(js ''modelName'', JString modelName)])])]"

definition detectFaces ::
  "'n platform \<Rightarrow> jsstring \<Rightarrow> jsstring \<Rightarrow> jsstring \<Rightarrow> 'n \<Rightarrow> (error + 'n jsvalue) \<times> event list" where
  "detectFaces P url path modelName minScore =
     (case predict P url \<lparr>imagePath = Some path, text' = None\<rparr>
             (detectFaces_request modelName minScore) of
        (Inl e, ev) \<Rightarrow> (Inl e, ev)
      | (Inr response, ev) \<Rightarrow>
          (case get response (js ''imageHeight'') of
             Inl e \<Rightarrow> (Inl e, ev)
           | Inr h \<Rightarrow>
               (case get response (js ''imageWidth'') of
                  Inl e \<Rightarrow> (Inl e, ev)
                | Inr w \<Rightarrow>
                    (case get response FACIAL_RECOGNITION of
                       Inl e \<Rightarrow> (Inl e, ev)
                     | Inr f \<Rightarrow>
                         (Inr (JObject [(js ''imageHeight'', h), (js ''imageWidth'', w),
                                        (js ''faces'', f)]), ev)))))"

definition encodeImage ::
  "'n platform \<Rightarrow> jsstring \<Rightarrow> jsstring \<Rightarrow> jsstring \<Rightarrow> (error + 'n jsvalue) \<times> event list" where
  "encodeImage P url path modelName =
     (case predict P url \<lparr>imagePath = Some path, text' = None\<rparr> (encodeImage_request modelName) of
        (Inl e, ev) \<Rightarrow> (Inl e, ev)
      | (Inr response, ev) \<Rightarrow>
          (case get response SEARCH of
             Inl e \<Rightarrow> (Inl e, ev)
           | Inr v \<Rightarrow> (Inr v, ev)))"

definition encodeText ::
  "'n platform \<Rightarrow> jsstring \<Rightarrow> jsstring \<Rightarrow> jsstring \<Rightarrow> (error + 'n jsvalue) \<times> event list" where
  "encodeText P url t modelName =
     (case predict P url \<lparr>imagePath = None, text' = Some t\<rparr> (encodeText_request modelName) of
        (Inl e, ev) \<Rightarrow> (Inl e, ev)
      | (Inr response, ev) \<Rightarrow>
          (case get response SEARCH of
             Inl e \<Rightarrow> (Inl e, ev)
           | Inr v \<Rightarrow> (Inr v, ev)))"

text \<open>
  When the probe of an address answers with HTTP status 200.
\<close>

definition live :: "'n platform \<Rightarrow> jsstring \<Rightarrow> bool" where
  "live P path = (case fetch P (GET path) of Rejected cause \<Rightarrow> False | Fulfilled r \<Rightarrow> status r = 200)"

section \<open>Example platforms\<close>

text \<open>
  Concrete collaborators for the scenarios: a file system that has every file, a
  serializer that writes \<open>{}\<close>, and a \<open>URL\<close> constructor that refuses a
  \<open>data:\<close> base (its path is opaque, so nothing resolves against it) and otherwise
  appends the input, which is what the constructor gives for a bare origin such as
  \<open>http://b\<close>.
\<close>

definition example_platform :: "(request \<Rightarrow> real settled) \<Rightarrow> real platform" where
  "example_platform net =
     \<lparr>fetch = net,
      readFile = (\<lambda>p. Inr [0xFF, 0xD8]),
      JSON_stringify = (\<lambda>v. js ''{}''),
      URL = (\<lambda>input base. if prefix (js ''data:'') base then None else Some (base @ input))\<rparr>"

definition okResponse :: "real jsvalue \<Rightarrow> real Response" where
  "okResponse body = \<lparr>status = 200, statusText = js ''OK'', json = Inr body\<rparr>"

text \<open>No server answers.\<close>

definition net_down :: "request \<Rightarrow> real settled" where
  "net_down rq = Rejected (js ''ECONNREFUSED'')"

text \<open>
  The probe of \<open>http://a\<close> times out, every other probe answers 200, and a POST
  settles as given.
\<close>

definition net_scenario :: "real settled \<Rightarrow> request \<Rightarrow> real settled" where
  "net_scenario outcome rq =
     (case rq of
        GET u \<Rightarrow> if u = js ''http://a'' then Rejected (js ''timeout'')
                 else Fulfilled (okResponse JNull)
      | POST u b \<Rightarrow> outcome)"

text \<open>
  The probe of \<open>http://a\<close> times out and every other probe answers 503.
\<close>

definition net_unavailable :: "request \<Rightarrow> real settled" where
  "net_unavailable rq =
     (case rq of
        GET u \<Rightarrow> if u = js ''http://a'' then Rejected (js ''timeout'')
                 else Fulfilled \<lparr>status = 503, statusText = js ''Service Unavailable'',
                                  json = Inr JNull\<rparr>
      | POST u b \<Rightarrow> Rejected (js ''ECONNREFUSED''))"

definition facesBody :: "real jsvalue" where
  "facesBody =
     JObject [(js ''imageHeight'', JNumber 100), (js ''imageWidth'', JNumber 200),
              (FACIAL_RECOGNITION, JArray [JObject [(js ''score'', JNumber 0.9)]])]"

definition searchBody :: "real jsvalue" where
  "searchBody = JObject [(SEARCH, JObject [(js ''embedding'', JArray [JNumber 0.1, JNumber 0.2])])]"

section \<open>Basic facts\<close>

lemma split_nonempty: "split sep s \<noteq> []"
  by (induction s) (auto simp: Let_def)

lemma join_split: "join [sep] (split sep s) = s"
proof (induction s)
  case Nil
  show ?case by simp
next
  case (Cons c cs)
  obtain seg segs where r: "split sep cs = seg # segs"
    using split_nonempty [of sep cs] by (cases "split sep cs") auto
  show ?case
  proof (cases "c = sep")
    case True
    with Cons r show ?thesis by simp
  next
    case False
    with Cons r show ?thesis by (cases segs) (auto simp: Let_def)
  qed
qed

lemma split_no_separator: "seg \<in> set (split sep s) \<Longrightarrow> sep \<notin> set seg"
proof (induction s arbitrary: seg)
  case Nil
  then show ?case by simp
next
  case (Cons c cs)
  obtain x xs where r: "split sep cs = x # xs"
    using split_nonempty [of sep cs] by (cases "split sep cs") auto
  show ?case
  proof (cases "c = sep")
    case True
    with Cons show ?thesis by auto
  next
    case False
    with Cons.prems r have "seg = c # x \<or> seg \<in> set xs" by (auto simp: Let_def)
    with Cons.IH r False show ?thesis by auto
  qed
qed

section \<open>The probing loop\<close>

lemma requests_append: "requests (xs @ ys) = requests xs @ requests ys"
  by (induction xs rule: requests.induct) auto

lemma warnings_append: "warnings (xs @ ys) = warnings xs @ warnings ys"
  by (induction xs rule: warnings.induct) auto

lemma ping_status: "(reply_status (fst (ping P path)) = 200) = live P path"
  by (simp add: ping_def live_def split: settled.splits)

lemma ping_requests: "requests (snd (ping P path)) = [GET path]"
  by (simp add: ping_def split: settled.splits)

lemma probe_loop_skip:
  "\<not> live P path \<Longrightarrow>
   probe_loop P (path # paths) =
     (fst (probe_loop P paths), snd (ping P path) @ snd (probe_loop P paths))"
  using ping_status [of P path] by (simp add: split_beta)

lemma probe_loop_hit:
  "live P path \<Longrightarrow>
   probe_loop P (path # paths) =
     (Inr path, snd (ping P path) @ [Debug (js ''Response from '' @ path)])"
  using ping_status [of P path] by (simp add: split_beta)

lemma probe_loop_first_live:
  assumes "\<forall>q\<in>set pre. \<not> live P q" and "live P p"
  shows "fst (probe_loop P (pre @ p # post)) = Inr p"
    and "requests (snd (probe_loop P (pre @ p # post))) = map GET (pre @ [p])"
  using assms
  by (induction pre) (simp_all add: probe_loop_skip probe_loop_hit requests_append ping_requests del: probe_loop.simps)

lemma probe_loop_none_live:
  assumes "\<forall>q\<in>set paths. \<not> live P q"
  shows "fst (probe_loop P paths) = Inl (Error noServerMessage)"
    and "requests (snd (probe_loop P paths)) = map GET paths"
  using assms
  by (induction paths) (simp_all add: probe_loop_skip requests_append ping_requests del: probe_loop.simps, simp_all)

lemma ping_events:
  "snd (ping P path) =
     (case fetch P (GET path) of
        Rejected cause \<Rightarrow>
          [Fetch (GET path),
           Warn (js ''Machine learning request ping to '' @ [dquote] @ path @ [dquote]
                 @ js '' failed with '' @ cause)]
      | Fulfilled r \<Rightarrow> [Fetch (GET path)])"
  by (simp add: ping_def errorPrefix_def js_def split: settled.splits)

lemma probe_loop_none_live_events:
  assumes "\<forall>q\<in>set paths. \<not> live P q"
  shows "snd (probe_loop P paths) = concat (map (\<lambda>q. snd (ping P q)) paths)"
  using assms
  by (induction paths) (simp_all add: probe_loop_skip del: probe_loop.simps, simp)

lemma probe_loop_Inr:
  "probe_loop P paths = (Inr w, ev) \<Longrightarrow>
   \<exists>pre post. paths = pre @ w # post \<and> (\<forall>q\<in>set pre. \<not> live P q) \<and> live P w
      \<and> requests ev = map GET (pre @ [w])"
proof (induction paths arbitrary: ev)
  case Nil
  then show ?case by simp
next
  case (Cons path paths)
  show ?case
  proof (cases "live P path")
    case True
    with Cons.prems have "w = path" and "ev = snd (ping P path) @ [Debug (js ''Response from '' @ path)]"
      by (auto simp add: probe_loop_hit simp del: probe_loop.simps)
    then have "path # paths = [] @ w # paths \<and> (\<forall>q\<in>set []. \<not> live P q) \<and> live P w
      \<and> requests ev = map GET ([] @ [w])"
      using True by (simp add: requests_append ping_requests)
    then show ?thesis by blast
  next
    case False
    with Cons.prems have eq: "probe_loop P paths = (Inr w, snd (probe_loop P paths))"
      and ev: "ev = snd (ping P path) @ snd (probe_loop P paths)"
      by (simp_all add: probe_loop_skip prod_eq_iff del: probe_loop.simps)
    from Cons.IH [OF eq] obtain pre post where
      h: "paths = pre @ w # post" "\<forall>q\<in>set pre. \<not> live P q" "live P w"
         "requests (snd (probe_loop P paths)) = map GET (pre @ [w])" by blast
    have "path # paths = (path # pre) @ w # post \<and> (\<forall>q\<in>set (path # pre). \<not> live P q) \<and> live P w
      \<and> requests ev = map GET ((path # pre) @ [w])"
      using h False ev by (simp add: requests_append ping_requests)
    then show ?thesis by blast
  qed
qed

lemma getFormData_requests: "requests (snd (getFormData P payload config)) = []"
  by (simp add: getFormData_def Let_def split: option.splits sum.splits)

section \<open>Strings: trimming and decimal digits\<close>

lemma trim_decompose:
  "\<exists>l r. s = l @ trim s @ r \<and> (\<forall>c\<in>set l. isWhiteSpace c) \<and> (\<forall>c\<in>set r. isWhiteSpace c)"
proof -
  define m where "m = dropWhile isWhiteSpace s"
  define l where "l = takeWhile isWhiteSpace s"
  define r where "r = rev (takeWhile isWhiteSpace (rev m))"
  have "trim s @ r = rev (takeWhile isWhiteSpace (rev m) @ dropWhile isWhiteSpace (rev m))"
    unfolding trim_def r_def m_def by (simp only: rev_append)
  also have "\<dots> = rev (rev m)" by (simp only: takeWhile_dropWhile_id)
  also have "\<dots> = m" by (simp only: rev_rev_ident)
  finally have "m = trim s @ r" by (rule sym)
  moreover have "s = l @ m" by (simp add: l_def m_def)
  moreover have "\<forall>c\<in>set l. isWhiteSpace c" unfolding l_def by (auto dest: set_takeWhileD)
  moreover have "\<forall>c\<in>set r. isWhiteSpace c" unfolding r_def by (auto dest: set_takeWhileD)
  ultimately show ?thesis by auto
qed

lemma last_dropWhile_nonempty: "dropWhile Q xs \<noteq> [] \<Longrightarrow> last (dropWhile Q xs) = last xs"
  by (induction xs) auto

lemma trim_ends:
  assumes "trim s \<noteq> []"
  shows "\<not> isWhiteSpace (hd (trim s)) \<and> \<not> isWhiteSpace (last (trim s))"
proof -
  define m where "m = dropWhile isWhiteSpace s"
  have d: "dropWhile isWhiteSpace (rev m) \<noteq> []" using assms by (simp add: trim_def m_def)
  then have m: "m \<noteq> []" by auto
  have "last (trim s) = hd (dropWhile isWhiteSpace (rev m))"
    using d by (simp add: trim_def m_def last_rev)
  then have 1: "\<not> isWhiteSpace (last (trim s))" using d hd_dropWhile by metis
  have "hd (trim s) = last (dropWhile isWhiteSpace (rev m))"
    using d by (simp add: trim_def m_def hd_rev)
  also have "\<dots> = last (rev m)" using d by (rule last_dropWhile_nonempty)
  also have "\<dots> = hd m" using m by (simp add: last_rev)
  finally have "hd (trim s) = hd (dropWhile isWhiteSpace s)" by (simp add: m_def)
  then have 2: "\<not> isWhiteSpace (hd (trim s))" using m hd_dropWhile unfolding m_def by metis
  from 1 2 show ?thesis by simp
qed

lemma toUSVString_length: "length (toUSVString s) = length s"
  by (induction s rule: toUSVString.induct) auto

lemma toUSVString_no_surrogate:
  "\<forall>c\<in>set s. \<not> isLeadSurrogate c \<and> \<not> isTrailSurrogate c \<Longrightarrow> toUSVString s = s"
  by (induction s rule: toUSVString.induct) auto

lemma of_char_below_surrogates:
  "\<not> isLeadSurrogate (of_char c) \<and> \<not> isTrailSurrogate (of_char c)"
proof -
  have b: "(of_char c :: nat) < 256"
    by (metis of_char_mod_256 mod_less_divisor zero_less_numeral)
  have "(256 :: nat) < 2 ^ LENGTH(16)" by simp
  with b have l: "(of_char c :: nat) < 2 ^ LENGTH(16)" by (rule less_trans)
  have "unat (of_nat (of_char c) :: 16 word) = of_char c"
    by (rule of_nat_inverse [OF refl l])
  then have u: "unat (of_char c :: 16 word) = of_char c"
    by (simp only: of_nat_of_char)
  have "unat (0xD800 :: 16 word) = 55296" by simp
  with b u have "unat (of_char c :: 16 word) < unat (0xD800 :: 16 word)"
    by linarith
  then have "(of_char c :: 16 word) < 0xD800" by (simp only: word_less_nat_alt)
  then show ?thesis
    unfolding isLeadSurrogate_def isTrailSurrogate_def
    by (auto simp add: word_le_nat_alt word_less_nat_alt)
qed

lemma toUSVString_js: "toUSVString (js s) = js s"
  by (rule toUSVString_no_surrogate) (auto simp add: js_def of_char_below_surrogates)

lemma digits_nonempty: "digits n \<noteq> []"
  by (subst digits.simps) simp

lemma digit_inject:
  assumes "a < 10" "b < 10" "(of_nat (48 + a) :: 16 word) = of_nat (48 + b)"
  shows "a = b"
proof -
  have a: "48 + a < 2 ^ LENGTH(16)" using assms(1) by simp
  have b: "48 + b < 2 ^ LENGTH(16)" using assms(2) by simp
  have ua: "unat (of_nat (48 + a) :: 16 word) = 48 + a"
    by (rule of_nat_inverse [OF refl a])
  have ub: "unat (of_nat (48 + b) :: 16 word) = 48 + b"
    by (rule of_nat_inverse [OF refl b])
  have "unat (of_nat (48 + a) :: 16 word) = unat (of_nat (48 + b) :: 16 word)"
    by (rule arg_cong [OF assms(3)])
  with ua ub show ?thesis by linarith
qed

lemma digits_inject: "digits m = digits n \<Longrightarrow> m = n"
proof (induction m arbitrary: n rule: digits.induct)
  case (1 m)
  show ?case
  proof (cases "m < 10")
    case True
    then have dm: "digits m = [of_nat (48 + m)]" by (subst digits.simps) simp
    show ?thesis
    proof (cases "n < 10")
      case True
      then have "digits n = [of_nat (48 + n)]" by (subst digits.simps) simp
      with dm "1.prems" have "(of_nat (48 + m) :: 16 word) = of_nat (48 + n)" by simp
      from digit_inject [OF \<open>m < 10\<close> True this] show ?thesis .
    next
      case False
      then have "digits n = digits (n div 10) @ [of_nat (48 + n mod 10)]"
        by (subst digits.simps) simp
      with dm "1.prems" digits_nonempty [of "n div 10"] show ?thesis by simp
    qed
  next
    case False
    then have dm: "digits m = digits (m div 10) @ [of_nat (48 + m mod 10)]"
      by (subst digits.simps) simp
    show ?thesis
    proof (cases "n < 10")
      case True
      then have "digits n = [of_nat (48 + n)]" by (subst digits.simps) simp
      with dm "1.prems" digits_nonempty [of "m div 10"] show ?thesis by simp
    next
      case n: False
      then have "digits n = digits (n div 10) @ [of_nat (48 + n mod 10)]"
        by (subst digits.simps) simp
      with dm "1.prems" have e: "digits (m div 10) = digits (n div 10)"
        and l: "(of_nat (48 + m mod 10) :: 16 word) = of_nat (48 + n mod 10)" by simp_all
      from "1.IH" [OF False e] have "m div 10 = n div 10" .
      moreover have "m mod 10 = n mod 10"
        by (rule digit_inject [OF _ _ l]) simp_all
      ultimately show ?thesis by (metis div_mult_mod_eq)
    qed
  qed
qed

lemma digits_503: "digits 503 = js ''503''"
  by (simp add: digits.simps js_def)

section \<open>The first request of a scan\<close>

lemma probe_loop_first_request:
  "requests (snd (probe_loop P (path # paths))) = GET path # tl (requests (snd (probe_loop P (path # paths))))"
  by (cases "live P path")
     (simp_all add: probe_loop_hit probe_loop_skip requests_append ping_requests del: probe_loop.simps)

section \<open>The dispatch after a successful resolution\<close>

lemma predict_resolved:
  assumes "getFormData P payload config = (Inr formData, ev0)"
    and "find_working_server P url = (Inr workingurl, ev2)"
    and "URL P (js ''/predict'') workingurl = Some target"
  shows "predict P url payload config =
     (case fetch P (POST target formData) of
        Rejected cause \<Rightarrow> Inl (Error (dispatchFailedMessage workingurl cause))
      | Fulfilled res \<Rightarrow>
          if status res \<ge> 400
          then Inl (Error (rejectedMessage (JSON_stringify P config) (status res) (statusText res)))
          else (case json res of Inl e \<Rightarrow> Inl (DecodeError e) | Inr v \<Rightarrow> Inr v),
      ev0 @ [Debug (js ''Predicting with '' @ join [comma] (split semicolon url))] @ ev2
          @ [Fetch (POST target formData)])"
  using assms by (simp add: predict_def Let_def split: settled.splits sum.splits)

lemma filter_isPOST_GET: "filter isPOST (map GET xs) = []"
  by (induction xs) auto

lemma predict_requests:
  assumes "getFormData P payload config = (Inr formData, ev0)"
    and "find_working_server P url = (Inr workingurl, ev2)"
    and "URL P (js ''/predict'') workingurl = Some target"
  shows "\<exists>pre post. map trim (split semicolon url) = pre @ workingurl # post
           \<and> (\<forall>q\<in>set pre. \<not> live P q) \<and> live P workingurl
           \<and> requests (snd (predict P url payload config))
               = map GET (pre @ [workingurl]) @ [POST target formData]"
proof -
  from assms(2) obtain pre post where
    h: "map trim (split semicolon url) = pre @ workingurl # post"
       "\<forall>q\<in>set pre. \<not> live P q" "live P workingurl"
       "requests ev2 = map GET (pre @ [workingurl])"
    unfolding find_working_server_def using probe_loop_Inr by blast
  have "requests ev0 = []"
    using getFormData_requests [of P payload config] assms(1) by simp
  then have "requests (snd (predict P url payload config))
               = map GET (pre @ [workingurl]) @ [POST target formData]"
    using h(4) by (simp add: predict_resolved [OF assms] requests_append)
  with h show ?thesis by blast
qed

text \<open>
  When the \<open>URL\<close> constructor throws on the resolved address, \<open>predict\<close> rejects
  with that error and no POST is issued.
\<close>

lemma predict_invalid_base:
  assumes "getFormData P payload config = (Inr formData, ev0)"
    and "find_working_server P url = (Inr workingurl, ev2)"
    and "URL P (js ''/predict'') workingurl = None"
  shows "predict P url payload config =
           (Inl InvalidURL,
            ev0 @ [Debug (js ''Predicting with '' @ join [comma] (split semicolon url))] @ ev2)"
  using assms by (simp add: predict_def Let_def)

section \<open>The example platforms, evaluated\<close>

lemma example_candidates:
  "map trim (split semicolon (js ''http://a;http://b'')) = [js ''http://a'', js ''http://b'']"
  by (simp add: js_def semicolon_def trim_def isWhiteSpace_def)

lemma example_resolution:
  "find_working_server (example_platform (net_scenario outcome)) (js ''http://a;http://b'')
     = (Inr (js ''http://b''),
        [Fetch (GET (js ''http://a'')),
         Warn (js ''Machine learning request ping to \"http://a\" failed with timeout''),
         Fetch (GET (js ''http://b'')),
         Debug (js ''Response from http://b'')])"
  unfolding find_working_server_def example_candidates
  by (simp add: ping_def example_platform_def net_scenario_def okResponse_def js_def
      errorPrefix_def dquote_def)

lemma example_text_form:
  "getFormData (example_platform net) \<lparr>imagePath = None, text' = Some (js s)\<rparr> config
     = (Inr [(js ''entries'', Text (js ''{}'')), (js ''text'', Text (js s))], [])"
  by (simp add: getFormData_def example_platform_def toUSVString_js)

lemma example_image_form:
  "getFormData (example_platform net) \<lparr>imagePath = Some p, text' = t\<rparr> config
     = (Inr [(js ''entries'', Text (js ''{}'')), (js ''image'', Blob [0xFF, 0xD8])], [ReadFile p])"
  by (simp add: getFormData_def example_platform_def toUSVString_js)

lemma example_target:
  "URL (example_platform net) (js ''/predict'') (js ''http://b'') = Some (js ''http://b/predict'')"
  by (simp add: example_platform_def js_def)

lemma example_opaque_base:
  "find_working_server (example_platform (net_scenario outcome)) (js ''data:text/plain,hi'')
     = (Inr (js ''data:text/plain,hi''),
        [Fetch (GET (js ''data:text/plain,hi'')),
         Debug (js ''Response from data:text/plain,hi'')])"
  "URL (example_platform net) (js ''/predict'') (js ''data:text/plain,hi'') = None"
  by (simp_all add: find_working_server_def semicolon_def trim_def isWhiteSpace_def ping_def
      example_platform_def net_scenario_def okResponse_def js_def)

lemma example_fetch_post:
  "fetch (example_platform (net_scenario outcome)) (POST u b) = outcome"
  by (simp add: example_platform_def net_scenario_def)

lemma example_predict_ok:
  "getFormData (example_platform (net_scenario (Fulfilled (okResponse body)))) payload config
     = (Inr formData, ev0) \<Longrightarrow>
   fst (predict (example_platform (net_scenario (Fulfilled (okResponse body))))
          (js ''http://a;http://b'') payload config) = Inr body"
  by (simp add: predict_resolved [OF _ example_resolution example_target] example_fetch_post
      okResponse_def)

section \<open>The claims\<close>

subsection \<open>C1: the first live candidate is returned\<close>

text \<open>
  Claim C1. The candidates are the segments of the configuration string between the
  semicolons, each trimmed. When the candidate \<open>p\<close> answers its probe with status 200
  and no candidate before it in the list does, \<open>find_working_server\<close> returns \<open>p\<close>,
  and the requests it has issued are the probes of the candidates up to and including
  \<open>p\<close>, in list order: no candidate after \<open>p\<close> is probed, whatever its status would be.
\<close>

theorem find_working_server_first_live:
  assumes "map trim (split semicolon url) = pre @ p # post"
    and "\<forall>q\<in>set pre. \<not> live P q"
    and "live P p"
  shows "fst (find_working_server P url) = Inr p
       \<and> requests (snd (find_working_server P url)) = map GET (pre @ [p])"
  using probe_loop_first_live [OF assms(2,3), of post] assms(1)
  by (simp add: find_working_server_def)

theorem find_working_server_first_live_witness:
  "map trim (split semicolon (js ''http://a; http://b ;http://c''))
     = [js ''http://a''] @ js ''http://b'' # [js ''http://c'']
   \<and> \<not> live (example_platform (net_scenario (Rejected []))) (js ''http://a'')
   \<and> live (example_platform (net_scenario (Rejected []))) (js ''http://b'')
   \<and> live (example_platform (net_scenario (Rejected []))) (js ''http://c'')
   \<and> fst (find_working_server (example_platform (net_scenario (Rejected [])))
            (js ''http://a; http://b ;http://c'')) = Inr (js ''http://b'')
   \<and> requests (snd (find_working_server (example_platform (net_scenario (Rejected [])))
            (js ''http://a; http://b ;http://c'')))
       = [GET (js ''http://a''), GET (js ''http://b'')]"
proof -
  let ?P = "example_platform (net_scenario (Rejected []))"
  have c: "map trim (split semicolon (js ''http://a; http://b ;http://c''))
     = [js ''http://a''] @ js ''http://b'' # [js ''http://c'']"
    by (simp add: js_def semicolon_def trim_def isWhiteSpace_def)
  have a: "\<forall>q\<in>set [js ''http://a'']. \<not> live ?P q"
    by (simp add: live_def example_platform_def net_scenario_def)
  have b: "live ?P (js ''http://b'')"
    by (simp add: live_def example_platform_def net_scenario_def okResponse_def js_def)
  have b': "live ?P (js ''http://c'')"
    by (simp add: live_def example_platform_def net_scenario_def okResponse_def js_def)
  show ?thesis
    using find_working_server_first_live [OF c a b] a b b' c by simp
qed

subsection \<open>C2: no candidate is live\<close>

text \<open>
  Claim C2. When no candidate answers its probe with status 200 (the probe is rejected
  by the network or answers another status), \<open>find_working_server\<close> probes every
  candidate once, in list order, logs one warning, naming the candidate and the cause,
  after each probe that the network rejected and nothing after a probe that answered
  another status, and then throws an \<open>Error\<close> whose message is the fixed text
  \<open>Machine learning request: no machine learning server found.\<close>, whatever the
  address string: the address string is not put into the error.
\<close>

theorem find_working_server_none_live:
  assumes "\<forall>q\<in>set (map trim (split semicolon url)). \<not> live P q"
  shows "fst (find_working_server P url)
           = Inl (Error (js ''Machine learning request: no machine learning server found.''))
       \<and> requests (snd (find_working_server P url)) = map GET (map trim (split semicolon url))
       \<and> snd (find_working_server P url)
           = concat (map (\<lambda>q. case fetch P (GET q) of
                                  Rejected cause \<Rightarrow>
                                    [Fetch (GET q),
                                     Warn (js ''Machine learning request ping to '' @ [dquote] @ q
                                           @ [dquote] @ js '' failed with '' @ cause)]
                                | Fulfilled r \<Rightarrow> [Fetch (GET q)])
                         (map trim (split semicolon url)))"
proof -
  have "snd (find_working_server P url)
          = concat (map (\<lambda>q. snd (ping P q)) (map trim (split semicolon url)))"
    unfolding find_working_server_def by (rule probe_loop_none_live_events [OF assms])
  then show ?thesis
    using probe_loop_none_live [OF assms]
    by (simp add: find_working_server_def noServerMessage_def errorPrefix_def js_def ping_events)
qed

theorem find_working_server_none_live_witness:
  "\<not> live (example_platform net_unavailable) (js ''http://a'')
   \<and> \<not> live (example_platform net_unavailable) (js ''http://b'')
   \<and> find_working_server (example_platform net_unavailable) (js ''http://a;http://b'')
       = (Inl (Error (js ''Machine learning request: no machine learning server found.'')),
          [Fetch (GET (js ''http://a'')),
           Warn (js ''Machine learning request ping to \"http://a\" failed with timeout''),
           Fetch (GET (js ''http://b''))])"
proof -
  have c: "map trim (split semicolon (js ''http://a;http://b'')) = [js ''http://a'', js ''http://b'']"
    by (simp add: js_def semicolon_def trim_def isWhiteSpace_def)
  have l: "\<not> live (example_platform net_unavailable) (js ''http://a'')"
      "\<not> live (example_platform net_unavailable) (js ''http://b'')"
    by (simp_all add: live_def example_platform_def net_unavailable_def js_def)
  have h: "\<forall>q\<in>set (map trim (split semicolon (js ''http://a;http://b''))).
      \<not> live (example_platform net_unavailable) q"
    unfolding c using l by simp
  have f: "fetch (example_platform net_unavailable) (GET (js ''http://a'')) = Rejected (js ''timeout'')"
      "fetch (example_platform net_unavailable) (GET (js ''http://b''))
         = Fulfilled \<lparr>status = 503, statusText = js ''Service Unavailable'', json = Inr JNull\<rparr>"
    by (simp_all add: example_platform_def net_unavailable_def js_def)
  have "js ''Machine learning request ping to '' @ [dquote] @ js ''http://a'' @ [dquote]
          @ js '' failed with '' @ js ''timeout''
        = js ''Machine learning request ping to \"http://a\" failed with timeout''"
    by (simp add: js_def dquote_def)
  then show ?thesis
    using find_working_server_none_live [OF h] l unfolding c
    by (simp add: f prod_eq_iff)
qed

text \<open>
  Claim C2 as the spec words it has the error carry the original address string. For the
  address string \<open>http://a\<close> and a network that refuses every connection, the message
  of the error does not contain \<open>http://a\<close>.
\<close>

theorem no_server_error_names_no_address_counterexample:
  "map trim (split semicolon (js ''http://a'')) = [js ''http://a'']
   \<and> fetch (example_platform net_down) (GET (js ''http://a'')) = Rejected (js ''ECONNREFUSED'')
   \<and> fst (find_working_server (example_platform net_down) (js ''http://a''))
       = Inl (Error (js ''Machine learning request: no machine learning server found.''))
   \<and> \<not> sublist (js ''http://a'')
         (js ''Machine learning request: no machine learning server found.'')"
proof -
  have "\<not> set (js ''http://a'') \<subseteq> set (js ''Machine learning request: no machine learning server found.'')"
    by (simp add: js_def)
  then have "\<not> sublist (js ''http://a'')
         (js ''Machine learning request: no machine learning server found.'')"
    using set_mono_sublist by blast
  moreover have "map trim (split semicolon (js ''http://a'')) = [js ''http://a'']"
    by (simp add: js_def semicolon_def trim_def isWhiteSpace_def)
  moreover have "fetch (example_platform net_down) (GET (js ''http://a'')) = Rejected (js ''ECONNREFUSED'')"
    by (simp add: example_platform_def net_down_def)
  moreover have "fst (find_working_server (example_platform net_down) (js ''http://a''))
       = Inl (Error (js ''Machine learning request: no machine learning server found.''))"
    by (simp add: find_working_server_def js_def semicolon_def trim_def isWhiteSpace_def
        ping_def example_platform_def net_down_def noServerMessage_def errorPrefix_def)
  ultimately show ?thesis by blast
qed

subsection \<open>C3: a payload with neither variant\<close>

text \<open>
  Claim C3. For a payload with neither an image reference nor a text string,
  \<open>predict\<close> throws the \<open>Error\<close> with message \<open>Invalid input\<close> and has no effect
  at all: no probe, no POST, no file read and no log entry.
\<close>

theorem predict_invalid_input:
  assumes "imagePath payload = None" and "text' payload = None"
  shows "predict P url payload config = (Inl (Error (js ''Invalid input'')), [])"
  using assms by (simp add: predict_def getFormData_def)

theorem predict_invalid_input_witness:
  "imagePath \<lparr>imagePath = None, text' = None\<rparr> = None
   \<and> text' \<lparr>imagePath = None, text' = None\<rparr> = None
   \<and> predict (example_platform (net_scenario (Fulfilled (okResponse searchBody))))
       (js ''http://a;http://b'') \<lparr>imagePath = None, text' = None\<rparr> (encodeText_request (js ''clip-base''))
     = (Inl (Error (js ''Invalid input'')), [])"
  using predict_invalid_input [of "\<lparr>imagePath = None, text' = None\<rparr>"
      "example_platform (net_scenario (Fulfilled (okResponse searchBody)))" "js ''http://a;http://b''"
      "encodeText_request (js ''clip-base'')"]
  by simp

subsection \<open>C4: the POST is rejected by the network\<close>

text \<open>
  Claim C4. When the form is built, the resolution returns \<open>workingurl\<close> and the
  POST to the target made from it is rejected by the network with \<open>cause\<close>,
  \<open>predict\<close> throws an \<open>Error\<close> whose message names \<open>workingurl\<close> and
  \<open>cause\<close> and not the address string. The requests of the call are the probes of the
  one resolution followed by the one POST: nothing is retried and no other candidate is
  tried.
\<close>

theorem predict_dispatch_failed:
  assumes "getFormData P payload config = (Inr formData, ev0)"
    and "find_working_server P url = (Inr workingurl, ev2)"
    and "URL P (js ''/predict'') workingurl = Some target"
    and "fetch P (POST target formData) = Rejected cause"
  shows "predict P url payload config =
           (Inl (Error (js ''Machine learning request to '' @ [dquote] @ workingurl @ [dquote]
                        @ js '' failed with '' @ cause)),
            ev0 @ [Debug (js ''Predicting with '' @ join [comma] (split semicolon url))] @ ev2
              @ [Fetch (POST target formData)])
       \<and> (\<exists>pre post. map trim (split semicolon url) = pre @ workingurl # post
             \<and> requests (snd (predict P url payload config))
                 = map GET (pre @ [workingurl]) @ [POST target formData])"
proof -
  have "predict P url payload config =
           (Inl (Error (js ''Machine learning request to '' @ [dquote] @ workingurl @ [dquote]
                        @ js '' failed with '' @ cause)),
            ev0 @ [Debug (js ''Predicting with '' @ join [comma] (split semicolon url))] @ ev2
              @ [Fetch (POST target formData)])"
    using assms(4)
    by (simp add: predict_resolved [OF assms(1,2,3)] dispatchFailedMessage_def errorPrefix_def js_def)
  moreover have "\<exists>pre post. map trim (split semicolon url) = pre @ workingurl # post
             \<and> requests (snd (predict P url payload config))
                 = map GET (pre @ [workingurl]) @ [POST target formData]"
    using predict_requests [OF assms(1,2,3)] by blast
  ultimately show ?thesis by blast
qed

theorem predict_dispatch_failed_witness:
  "fst (predict (example_platform (net_scenario (Rejected (js ''ECONNRESET''))))
          (js ''http://a;http://b'') \<lparr>imagePath = None, text' = Some (js ''hello world'')\<rparr>
          (encodeText_request (js ''clip-base'')))
     = Inl (Error (js ''Machine learning request to \"http://b\" failed with ECONNRESET''))
   \<and> requests (snd (predict (example_platform (net_scenario (Rejected (js ''ECONNRESET''))))
          (js ''http://a;http://b'') \<lparr>imagePath = None, text' = Some (js ''hello world'')\<rparr>
          (encodeText_request (js ''clip-base''))))
     = [GET (js ''http://a''), GET (js ''http://b''),
        POST (js ''http://b/predict'')
          [(js ''entries'', Text (js ''{}'')), (js ''text'', Text (js ''hello world''))]]"
  using predict_dispatch_failed [OF example_text_form example_resolution example_target
      example_fetch_post, of "js ''ECONNRESET''" "''hello world''" "encodeText_request (js ''clip-base'')"]
  by (simp add: js_def dquote_def requests_append)

subsection \<open>C5: the status of the prediction response\<close>

text \<open>
  Claim C5. For a prediction response with status 400 or more, \<open>predict\<close> throws an
  \<open>Error\<close> whose message holds the serialized request configuration, the status in
  decimal digits (which determine the status) and the status text. For a status below
  400 the result is what decoding the body as JSON gives, unchanged: the decoded value,
  or the decoder's own rejection.
\<close>

theorem predict_response_status:
  assumes "getFormData P payload config = (Inr formData, ev0)"
    and "find_working_server P url = (Inr workingurl, ev2)"
    and "URL P (js ''/predict'') workingurl = Some target"
    and "fetch P (POST target formData) = Fulfilled res"
  shows "(400 \<le> status res \<longrightarrow>
            fst (predict P url payload config) =
              Inl (Error (js ''Machine learning request '' @ [apostrophe] @ JSON_stringify P config
                          @ [apostrophe] @ js '' failed with status '' @ digits (status res)
                          @ js '': '' @ statusText res)))
       \<and> (\<forall>n. digits n = digits (status res) \<longrightarrow> n = status res)
       \<and> (status res < 400 \<longrightarrow>
            fst (predict P url payload config) =
              (case json res of Inl e \<Rightarrow> Inl (DecodeError e) | Inr v \<Rightarrow> Inr v))"
  using assms(4) digits_inject
  by (auto simp add: predict_resolved [OF assms(1,2,3)] rejectedMessage_def errorPrefix_def js_def)

theorem predict_response_status_witness:
  "fst (predict (example_platform (net_scenario (Fulfilled
            \<lparr>status = 503, statusText = js ''Service Unavailable'', json = Inr JNull\<rparr>)))
          (js ''http://a;http://b'') \<lparr>imagePath = None, text' = Some (js ''hello world'')\<rparr>
          (encodeText_request (js ''clip-base'')))
     = Inl (Error (js ''Machine learning request '' @ [apostrophe] @ js ''{}'' @ [apostrophe]
                   @ js '' failed with status 503: Service Unavailable''))
   \<and> fst (predict (example_platform (net_scenario (Fulfilled (okResponse searchBody))))
          (js ''http://a;http://b'') \<lparr>imagePath = None, text' = Some (js ''hello world'')\<rparr>
          (encodeText_request (js ''clip-base'')))
     = Inr searchBody"
  using predict_response_status [OF example_text_form example_resolution example_target
      example_fetch_post, of "\<lparr>status = 503, statusText = js ''Service Unavailable'', json = Inr JNull\<rparr>"
      "''hello world''" "encodeText_request (js ''clip-base'')"]
    predict_response_status [OF example_text_form example_resolution example_target
      example_fetch_post, of "okResponse searchBody"
      "''hello world''" "encodeText_request (js ''clip-base'')"]
  by (simp add: digits_503 okResponse_def example_platform_def) (simp add: js_def)

subsection \<open>C6: the POST to /predict on the resolved address\<close>

text \<open>
  Claim C6. In a call in which the form is built and the resolution returns
  \<open>workingurl\<close>: when \<open>new URL('/predict', workingurl)\<close> gives a URL, the call issues
  exactly one POST, to that URL, with the form as its body; when the constructor throws
  on \<open>workingurl\<close>, the call rejects with the constructor's error and issues no POST.
\<close>

theorem predict_single_post:
  assumes "getFormData P payload config = (Inr formData, ev0)"
    and "find_working_server P url = (Inr workingurl, ev2)"
  shows "filter isPOST (requests (snd (predict P url payload config)))
           = (case URL P (js ''/predict'') workingurl of
                Some target \<Rightarrow> [POST target formData]
              | None \<Rightarrow> [])
       \<and> (URL P (js ''/predict'') workingurl = None \<longrightarrow>
            fst (predict P url payload config) = Inl InvalidURL)"
proof (cases "URL P (js ''/predict'') workingurl")
  case None
  obtain pre where "requests ev2 = map GET pre"
    using assms(2) probe_loop_Inr unfolding find_working_server_def by blast
  moreover have "requests ev0 = []"
    using getFormData_requests [of P payload config] assms(1) by simp
  ultimately show ?thesis
    using None by (simp add: predict_invalid_base [OF assms None] requests_append filter_isPOST_GET)
next
  case (Some target)
  from predict_requests [OF assms Some] obtain pre where
    "requests (snd (predict P url payload config))
       = map GET (pre @ [workingurl]) @ [POST target formData]" by blast
  then show ?thesis using Some by (simp add: filter_isPOST_GET del: map_append)
qed

theorem predict_single_post_witness:
  "fst (find_working_server (example_platform (net_scenario (Fulfilled (okResponse searchBody))))
          (js ''http://a;http://b'')) = Inr (js ''http://b'')
   \<and> URL (example_platform (net_scenario (Fulfilled (okResponse searchBody))))
        (js ''/predict'') (js ''http://b'') = Some (js ''http://b/predict'')
   \<and> filter isPOST (requests (snd (predict
          (example_platform (net_scenario (Fulfilled (okResponse searchBody))))
          (js ''http://a;http://b'') \<lparr>imagePath = Some (js ''/img.jpg''), text' = None\<rparr>
          (encodeImage_request (js ''clip-base'')))))
     = [POST (js ''http://b/predict'')
          [(js ''entries'', Text (js ''{}'')), (js ''image'', Blob [0xFF, 0xD8])]]
   \<and> URL (example_platform (net_scenario (Fulfilled (okResponse searchBody))))
        (js ''/predict'') (js ''data:text/plain,hi'') = None
   \<and> predict (example_platform (net_scenario (Fulfilled (okResponse searchBody))))
          (js ''data:text/plain,hi'') \<lparr>imagePath = Some (js ''/img.jpg''), text' = None\<rparr>
          (encodeImage_request (js ''clip-base''))
     = (Inl InvalidURL,
        [ReadFile (js ''/img.jpg''),
         Debug (js ''Predicting with data:text/plain,hi''),
         Fetch (GET (js ''data:text/plain,hi'')),
         Debug (js ''Response from data:text/plain,hi'')])"
proof -
  let ?P = "example_platform (net_scenario (Fulfilled (okResponse searchBody)))"
  let ?pl = "\<lparr>imagePath = Some (js ''/img.jpg''), text' = None\<rparr>"
  let ?cfg = "encodeImage_request (js ''clip-base'') :: real jsvalue"
  have 1: "filter isPOST (requests (snd (predict ?P (js ''http://a;http://b'') ?pl ?cfg)))
     = [POST (js ''http://b/predict'')
          [(js ''entries'', Text (js ''{}'')), (js ''image'', Blob [0xFF, 0xD8])]]"
    using predict_single_post [OF example_image_form example_resolution,
      of "Fulfilled (okResponse searchBody)" "js ''/img.jpg''" None ?cfg]
    by (simp add: example_target)
  have "fst (predict ?P (js ''data:text/plain,hi'') ?pl ?cfg) = Inl InvalidURL"
    using predict_single_post [OF example_image_form example_opaque_base(1),
      of "Fulfilled (okResponse searchBody)" "js ''/img.jpg''" None ?cfg]
    by (simp add: example_opaque_base(2))
  moreover have "snd (predict ?P (js ''data:text/plain,hi'') ?pl ?cfg)
     = [ReadFile (js ''/img.jpg''),
        Debug (js ''Predicting with data:text/plain,hi''),
        Fetch (GET (js ''data:text/plain,hi'')),
        Debug (js ''Response from data:text/plain,hi'')]"
    by (simp add: predict_invalid_base [OF example_image_form example_opaque_base])
       (simp add: js_def semicolon_def comma_def)
  ultimately have 2: "predict ?P (js ''data:text/plain,hi'') ?pl ?cfg
     = (Inl InvalidURL,
        [ReadFile (js ''/img.jpg''),
         Debug (js ''Predicting with data:text/plain,hi''),
         Fetch (GET (js ''data:text/plain,hi'')),
         Debug (js ''Response from data:text/plain,hi'')])"
    by (simp add: prod_eq_iff)
  from 1 2 show ?thesis
    by (simp add: example_resolution example_target example_opaque_base(2))
qed

text \<open>
  Claim C6 as the spec words it has one POST in every call in which resolution succeeds.
  The address \<open>data:text/plain,hi\<close> answers its probe with 200, so the resolution
  returns it; the \<open>URL\<close> constructor refuses it as a base, and the call rejects
  without a POST.
\<close>

theorem opaque_base_no_post_counterexample:
  "fst (find_working_server (example_platform (net_scenario (Fulfilled (okResponse searchBody))))
          (js ''data:text/plain,hi'')) = Inr (js ''data:text/plain,hi'')
   \<and> fst (predict (example_platform (net_scenario (Fulfilled (okResponse searchBody))))
          (js ''data:text/plain,hi'') \<lparr>imagePath = None, text' = Some (js ''hello world'')\<rparr>
          (encodeText_request (js ''clip-base''))) = Inl InvalidURL
   \<and> filter isPOST (requests (snd (predict
          (example_platform (net_scenario (Fulfilled (okResponse searchBody))))
          (js ''data:text/plain,hi'') \<lparr>imagePath = None, text' = Some (js ''hello world'')\<rparr>
          (encodeText_request (js ''clip-base''))))) = []"
  by (simp add: predict_invalid_base [OF example_text_form example_opaque_base]
      example_opaque_base requests_append)

subsection \<open>C7: a probe that fails at the network level\<close>

text \<open>
  Claim C7. When the probe of a candidate is rejected by the network, the rejection is
  caught: a warning naming the candidate and the cause is logged, the reply becomes the
  object with status 0, which is not an HTTP status code and is not 200, and the loop
  goes on with the remaining candidates.
\<close>

theorem probe_failure_does_not_abort:
  assumes "fetch P (GET path) = Rejected cause"
  shows "ping P path =
           (Nop, [Fetch (GET path),
                  Warn (js ''Machine learning request ping to '' @ [dquote] @ path @ [dquote]
                        @ js '' failed with '' @ cause)])
       \<and> reply_status (fst (ping P path)) = 0
       \<and> \<not> httpStatusCode (reply_status (fst (ping P path)))
       \<and> reply_status (fst (ping P path)) \<noteq> 200
       \<and> probe_loop P (path # paths) =
           (fst (probe_loop P paths), snd (ping P path) @ snd (probe_loop P paths))"
proof -
  have p: "ping P path =
           (Nop, [Fetch (GET path),
                  Warn (js ''Machine learning request ping to '' @ [dquote] @ path @ [dquote]
                        @ js '' failed with '' @ cause)])"
    using assms by (simp add: ping_def errorPrefix_def js_def)
  have "\<not> live P path" using assms by (simp add: live_def)
  from probe_loop_skip [OF this] p show ?thesis
    by (simp add: httpStatusCode_def del: probe_loop.simps)
qed

theorem probe_failure_does_not_abort_witness:
  "fetch (example_platform (net_scenario (Rejected []))) (GET (js ''http://a'')) = Rejected (js ''timeout'')
   \<and> warnings (snd (ping (example_platform (net_scenario (Rejected []))) (js ''http://a'')))
       = [js ''Machine learning request ping to \"http://a\" failed with timeout'']
   \<and> probe_loop (example_platform (net_scenario (Rejected []))) [js ''http://a'', js ''http://b'']
       = (Inr (js ''http://b''),
          [Fetch (GET (js ''http://a'')),
           Warn (js ''Machine learning request ping to \"http://a\" failed with timeout''),
           Fetch (GET (js ''http://b'')),
           Debug (js ''Response from http://b'')])"
proof -
  let ?P = "example_platform (net_scenario (Rejected []))"
  have h: "fetch ?P (GET (js ''http://a'')) = Rejected (js ''timeout'')"
    by (simp add: example_platform_def net_scenario_def)
  have l: "probe_loop ?P [js ''http://b''] = (Inr (js ''http://b''), [Fetch (GET (js ''http://b'')),
           Debug (js ''Response from http://b'')])"
    by (simp add: ping_def example_platform_def net_scenario_def okResponse_def js_def)
  show ?thesis
    using probe_failure_does_not_abort [OF h, of "[js ''http://b'']"] h l
    by (simp add: js_def dquote_def del: probe_loop.simps)
qed

subsection \<open>C8: the projections of the public operations\<close>

text \<open>
  Claim C8. When \<open>predict\<close> returns a decoded response that is not \<open>null\<close> (or
  \<open>undefined\<close>), \<open>detectFaces\<close> returns the object with \<open>imageHeight\<close> and
  \<open>imageWidth\<close> read from the response and \<open>faces\<close> bound to its
  facial-recognition property, and \<open>encodeImage\<close> and \<open>encodeText\<close> return its search
  property unchanged; a property the response does not have is read as \<open>undefined\<close>.
  When the decoded response is \<open>null\<close> (or \<open>undefined\<close>), each of the three
  operations rejects with the TypeError of the property read. The effects of the
  operation are those of \<open>predict\<close>.
\<close>

theorem response_projection:
  "(\<forall>response ev.
      predict P url \<lparr>imagePath = Some path, text' = None\<rparr> (detectFaces_request modelName minScore)
        = (Inr response, ev) \<longrightarrow>
      detectFaces P url path modelName minScore
        = (if nullish response then Inl NullPropertyRead
           else Inr (JObject [(js ''imageHeight'', property response (js ''imageHeight'')),
                              (js ''imageWidth'', property response (js ''imageWidth'')),
                              (js ''faces'', property response FACIAL_RECOGNITION)]), ev))
   \<and> (\<forall>response ev.
      predict P url \<lparr>imagePath = Some path, text' = None\<rparr> (encodeImage_request modelName)
        = (Inr response, ev) \<longrightarrow>
      encodeImage P url path modelName
        = (if nullish response then Inl NullPropertyRead else Inr (property response SEARCH), ev))
   \<and> (\<forall>response ev.
      predict P url \<lparr>imagePath = None, text' = Some t\<rparr> (encodeText_request modelName)
        = (Inr response, ev) \<longrightarrow>
      encodeText P url t modelName
        = (if nullish response then Inl NullPropertyRead else Inr (property response SEARCH), ev))"
  by (simp add: detectFaces_def encodeImage_def encodeText_def get_def)

theorem response_projection_witness:
  "fst (detectFaces (example_platform (net_scenario (Fulfilled (okResponse facesBody))))
          (js ''http://a;http://b'') (js ''/img.jpg'') (js ''m'') 0.7)
     = Inr (JObject [(js ''imageHeight'', JNumber 100), (js ''imageWidth'', JNumber 200),
                     (js ''faces'', JArray [JObject [(js ''score'', JNumber 0.9)]])])
   \<and> fst (encodeImage (example_platform (net_scenario (Fulfilled (okResponse searchBody))))
          (js ''http://a;http://b'') (js ''/img.jpg'') (js ''clip-base''))
     = Inr (JObject [(js ''embedding'', JArray [JNumber 0.1, JNumber 0.2])])
   \<and> fst (encodeText (example_platform (net_scenario (Fulfilled (okResponse searchBody))))
          (js ''http://a;http://b'') (js ''hello world'') (js ''clip-base''))
     = Inr (JObject [(js ''embedding'', JArray [JNumber 0.1, JNumber 0.2])])
   \<and> fst (encodeText (example_platform (net_scenario (Fulfilled (okResponse (JString (js ''up''))))))
          (js ''http://a;http://b'') (js ''hello world'') (js ''clip-base''))
     = Inr (JBuiltin (js ''String.prototype.search''))
   \<and> fst (encodeText (example_platform (net_scenario (Fulfilled (okResponse JNull))))
          (js ''http://a;http://b'') (js ''hello world'') (js ''clip-base''))
     = Inl NullPropertyRead"
proof -
  let ?F = "example_platform (net_scenario (Fulfilled (okResponse facesBody)))"
  let ?S = "example_platform (net_scenario (Fulfilled (okResponse searchBody)))"
  let ?T = "example_platform (net_scenario (Fulfilled (okResponse (JString (js ''up'')))))"
  let ?N = "example_platform (net_scenario (Fulfilled (okResponse JNull)))"
  let ?url = "js ''http://a;http://b''"
  have f: "predict ?F ?url \<lparr>imagePath = Some (js ''/img.jpg''), text' = None\<rparr>
             (detectFaces_request (js ''m'') 0.7)
           = (Inr facesBody, snd (predict ?F ?url \<lparr>imagePath = Some (js ''/img.jpg''), text' = None\<rparr>
             (detectFaces_request (js ''m'') 0.7)))"
    using example_predict_ok [OF example_image_form] by (simp add: prod_eq_iff)
  have i: "predict ?S ?url \<lparr>imagePath = Some (js ''/img.jpg''), text' = None\<rparr>
             (encodeImage_request (js ''clip-base''))
           = (Inr searchBody, snd (predict ?S ?url \<lparr>imagePath = Some (js ''/img.jpg''), text' = None\<rparr>
             (encodeImage_request (js ''clip-base''))))"
    using example_predict_ok [OF example_image_form] by (simp add: prod_eq_iff)
  have t: "predict P ?url \<lparr>imagePath = None, text' = Some (js ''hello world'')\<rparr>
             (encodeText_request (js ''clip-base''))
           = (Inr body, snd (predict P ?url \<lparr>imagePath = None, text' = Some (js ''hello world'')\<rparr>
             (encodeText_request (js ''clip-base''))))"
    if "P = example_platform (net_scenario (Fulfilled (okResponse body)))" for P body
    using example_predict_ok [OF example_text_form] that by (simp add: prod_eq_iff)
  have n: "\<not> nullish facesBody" "\<not> nullish searchBody" "\<not> nullish (JString (js ''up'') :: real jsvalue)"
      "nullish (JNull :: real jsvalue)"
    by (simp_all add: facesBody_def searchBody_def)
  have pf: "property facesBody (js ''imageHeight'') = JNumber 100"
      "property facesBody (js ''imageWidth'') = JNumber 200"
      "property facesBody FACIAL_RECOGNITION = JArray [JObject [(js ''score'', JNumber 0.9)]]"
    by (simp_all add: facesBody_def FACIAL_RECOGNITION_def js_def)
  have ps: "property searchBody SEARCH = JObject [(js ''embedding'', JArray [JNumber 0.1, JNumber 0.2])]"
      "property (JString (js ''up'') :: real jsvalue) SEARCH = JBuiltin (js ''String.prototype.search'')"
    by (simp_all add: searchBody_def SEARCH_def)
  have "detectFaces ?F ?url (js ''/img.jpg'') (js ''m'') 0.7
          = (if nullish facesBody then Inl NullPropertyRead
             else Inr (JObject [(js ''imageHeight'', property facesBody (js ''imageHeight'')),
                                (js ''imageWidth'', property facesBody (js ''imageWidth'')),
                                (js ''faces'', property facesBody FACIAL_RECOGNITION)]),
             snd (predict ?F ?url \<lparr>imagePath = Some (js ''/img.jpg''), text' = None\<rparr>
                    (detectFaces_request (js ''m'') 0.7)))"
    using response_projection [of ?F ?url "js ''/img.jpg''" "js ''m''" "0.7" "js ''hello world''"] f
    by blast
  then have 1: "fst (detectFaces ?F ?url (js ''/img.jpg'') (js ''m'') 0.7)
     = Inr (JObject [(js ''imageHeight'', JNumber 100), (js ''imageWidth'', JNumber 200),
                     (js ''faces'', JArray [JObject [(js ''score'', JNumber 0.9)]])])"
    by (simp only: n pf if_False fst_conv)
  have "encodeImage ?S ?url (js ''/img.jpg'') (js ''clip-base'')
          = (if nullish searchBody then Inl NullPropertyRead else Inr (property searchBody SEARCH),
             snd (predict ?S ?url \<lparr>imagePath = Some (js ''/img.jpg''), text' = None\<rparr>
                    (encodeImage_request (js ''clip-base''))))"
    using response_projection [of ?S ?url "js ''/img.jpg''" "js ''clip-base''" "0.7" "js ''hello world''"] i
    by blast
  then have 2: "fst (encodeImage ?S ?url (js ''/img.jpg'') (js ''clip-base''))
     = Inr (JObject [(js ''embedding'', JArray [JNumber 0.1, JNumber 0.2])])"
    by (simp only: n ps if_False fst_conv)
  have e: "encodeText P ?url (js ''hello world'') (js ''clip-base'')
          = (if nullish body then Inl NullPropertyRead else Inr (property body SEARCH),
             snd (predict P ?url \<lparr>imagePath = None, text' = Some (js ''hello world'')\<rparr>
                    (encodeText_request (js ''clip-base''))))"
    if "P = example_platform (net_scenario (Fulfilled (okResponse body)))" for P body
    using response_projection [of P ?url "js ''/img.jpg''" "js ''clip-base''" "0.7" "js ''hello world''"]
      t [OF that]
    by blast
  have 3: "fst (encodeText ?S ?url (js ''hello world'') (js ''clip-base''))
     = Inr (JObject [(js ''embedding'', JArray [JNumber 0.1, JNumber 0.2])])"
    by (simp only: e [OF refl] n ps if_False fst_conv)
  have 4: "fst (encodeText ?T ?url (js ''hello world'') (js ''clip-base''))
     = Inr (JBuiltin (js ''String.prototype.search''))"
    by (simp only: e [OF refl] n ps if_False fst_conv)
  have 5: "fst (encodeText ?N ?url (js ''hello world'') (js ''clip-base'')) = Inl NullPropertyRead"
    by (simp only: e [OF refl] n if_True fst_conv)
  from 1 2 3 4 5 show ?thesis by blast
qed

text \<open>
  Claim C8 as the spec words it has every successful dispatch projected. A server that
  answers the POST with status 200 and the body \<open>null\<close> makes \<open>predict\<close> return
  \<open>null\<close>, and \<open>encodeText\<close> then rejects with the TypeError of reading a property
  of \<open>null\<close>.
\<close>

theorem null_response_not_projected_counterexample:
  "fst (predict (example_platform (net_scenario (Fulfilled (okResponse JNull))))
          (js ''http://a;http://b'') \<lparr>imagePath = None, text' = Some (js ''hello world'')\<rparr>
          (encodeText_request (js ''clip-base''))) = Inr JNull
   \<and> fst (encodeText (example_platform (net_scenario (Fulfilled (okResponse JNull))))
          (js ''http://a;http://b'') (js ''hello world'') (js ''clip-base''))
       = Inl NullPropertyRead"
proof -
  have p: "fst (predict (example_platform (net_scenario (Fulfilled (okResponse JNull))))
          (js ''http://a;http://b'') \<lparr>imagePath = None, text' = Some (js ''hello world'')\<rparr>
          (encodeText_request (js ''clip-base''))) = Inr JNull"
    by (rule example_predict_ok [OF example_text_form])
  obtain ev where "predict (example_platform (net_scenario (Fulfilled (okResponse JNull))))
          (js ''http://a;http://b'') \<lparr>imagePath = None, text' = Some (js ''hello world'')\<rparr>
          (encodeText_request (js ''clip-base'')) = (Inr JNull, ev)"
    using p by (metis prod.collapse)
  then have "encodeText (example_platform (net_scenario (Fulfilled (okResponse JNull))))
          (js ''http://a;http://b'') (js ''hello world'') (js ''clip-base'')
       = (Inl NullPropertyRead, ev)"
    by (simp add: encodeText_def get_def)
  with p show ?thesis by simp
qed

subsection \<open>C9: the variants of a payload\<close>

text \<open>
  Claim C9. \<open>getFormData\<close> rejects a payload as invalid (\<open>Invalid input\<close>) exactly
  when it has neither an image reference nor a text string, and then before anything is
  built, read or sent. A payload with a text string only gives the form with the
  \<open>entries\<close> field and the \<open>text\<close> field, each string stored as a scalar value
  string. For a payload with an image reference, whether or not it has a text string as
  well, the file is read: when the read is rejected the call rejects with that error,
  and otherwise the form has the \<open>entries\<close> field and the \<open>image\<close> field with the
  bytes of the file; the text string is not used.
\<close>

theorem getFormData_payload_variants:
  "((fst (getFormData P payload config) = Inl (Error (js ''Invalid input'')))
      = (imagePath payload = None \<and> text' payload = None))
   \<and> (imagePath payload = None \<and> text' payload = None \<longrightarrow>
        getFormData P payload config = (Inl (Error (js ''Invalid input'')), [])
        \<and> predict P url payload config = (Inl (Error (js ''Invalid input'')), []))
   \<and> (\<forall>t. imagePath payload = None \<and> text' payload = Some t \<longrightarrow>
        getFormData P payload config
          = (Inr [(js ''entries'', Text (toUSVString (JSON_stringify P config))),
                  (js ''text'', Text (toUSVString t))], []))
   \<and> (\<forall>p. imagePath payload = Some p \<longrightarrow>
        getFormData P payload config
          = (case readFile P p of
               Inl e \<Rightarrow> (Inl (ReadFileError e), [ReadFile p])
             | Inr b \<Rightarrow> (Inr [(js ''entries'', Text (toUSVString (JSON_stringify P config))),
                               (js ''image'', Blob b)], [ReadFile p])))"
  by (cases "imagePath payload"; cases "text' payload")
     (simp_all add: getFormData_def predict_def Let_def split: sum.splits)

theorem getFormData_payload_variants_witness:
  "getFormData (example_platform net_down) \<lparr>imagePath = None, text' = None\<rparr> JNull
     = (Inl (Error (js ''Invalid input'')), [])
   \<and> getFormData (example_platform net_down) \<lparr>imagePath = None, text' = Some (js ''hello'')\<rparr> JNull
     = (Inr [(js ''entries'', Text (js ''{}'')), (js ''text'', Text (js ''hello''))], [])
   \<and> getFormData (example_platform net_down)
        \<lparr>imagePath = None, text' = Some [0x61, 0xD800, 0x62]\<rparr> JNull
     = (Inr [(js ''entries'', Text (js ''{}'')), (js ''text'', Text [0x61, 0xFFFD, 0x62])], [])
   \<and> getFormData (example_platform net_down)
        \<lparr>imagePath = Some (js ''/img.jpg''), text' = Some (js ''hello'')\<rparr> JNull
     = (Inr [(js ''entries'', Text (js ''{}'')), (js ''image'', Blob [0xFF, 0xD8])],
        [ReadFile (js ''/img.jpg'')])
   \<and> getFormData ((example_platform net_down)\<lparr>readFile := \<lambda>p. Inl (js ''ENOENT'')\<rparr>)
        \<lparr>imagePath = Some (js ''/img.jpg''), text' = Some (js ''hello'')\<rparr> JNull
     = (Inl (ReadFileError (js ''ENOENT'')), [ReadFile (js ''/img.jpg'')])"
proof -
  let ?P = "example_platform net_down"
  let ?Q = "(example_platform net_down)\<lparr>readFile := \<lambda>p. Inl (js ''ENOENT'')\<rparr>"
  have u: "toUSVString [0x61, 0xD800, 0x62] = [0x61, 0xFFFD, 0x62]"
    by (simp add: isLeadSurrogate_def isTrailSurrogate_def)
  have s: "JSON_stringify ?P JNull = js ''{}''" "JSON_stringify ?Q JNull = js ''{}''"
      "readFile ?P (js ''/img.jpg'') = Inr [0xFF, 0xD8]"
      "readFile ?Q (js ''/img.jpg'') = Inl (js ''ENOENT'')"
    by (simp_all add: example_platform_def)
  have 1: "getFormData ?P \<lparr>imagePath = None, text' = None\<rparr> JNull
     = (Inl (Error (js ''Invalid input'')), [])"
    using getFormData_payload_variants [of ?P "\<lparr>imagePath = None, text' = None\<rparr>" JNull]
    by simp
  have 2: "getFormData ?P \<lparr>imagePath = None, text' = Some (js ''hello'')\<rparr> JNull
     = (Inr [(js ''entries'', Text (js ''{}'')), (js ''text'', Text (js ''hello''))], [])"
    using getFormData_payload_variants [of ?P "\<lparr>imagePath = None, text' = Some (js ''hello'')\<rparr>" JNull]
    by (simp add: s toUSVString_js del: toUSVString.simps)
  have 3: "getFormData ?P \<lparr>imagePath = None, text' = Some [0x61, 0xD800, 0x62]\<rparr> JNull
     = (Inr [(js ''entries'', Text (js ''{}'')), (js ''text'', Text [0x61, 0xFFFD, 0x62])], [])"
    using getFormData_payload_variants [of ?P "\<lparr>imagePath = None, text' = Some [0x61, 0xD800, 0x62]\<rparr>" JNull]
    by (simp add: s toUSVString_js u del: toUSVString.simps)
  have 4: "getFormData ?P \<lparr>imagePath = Some (js ''/img.jpg''), text' = Some (js ''hello'')\<rparr> JNull
     = (Inr [(js ''entries'', Text (js ''{}'')), (js ''image'', Blob [0xFF, 0xD8])],
        [ReadFile (js ''/img.jpg'')])"
    using getFormData_payload_variants [of ?P
        "\<lparr>imagePath = Some (js ''/img.jpg''), text' = Some (js ''hello'')\<rparr>" JNull]
    by (simp add: s toUSVString_js del: toUSVString.simps)
  have 5: "getFormData ?Q \<lparr>imagePath = Some (js ''/img.jpg''), text' = Some (js ''hello'')\<rparr> JNull
     = (Inl (ReadFileError (js ''ENOENT'')), [ReadFile (js ''/img.jpg'')])"
    using getFormData_payload_variants [of ?Q
        "\<lparr>imagePath = Some (js ''/img.jpg''), text' = Some (js ''hello'')\<rparr>" JNull]
    by (simp add: s del: toUSVString.simps)
  from 1 2 3 4 5 show ?thesis by blast
qed

text \<open>
  Claim C9 as the spec words it has a payload with both variants rejected. A payload
  with both an image reference and a text string is accepted: the form carries the
  image, and the prediction is returned.
\<close>

theorem payload_with_both_variants_counterexample:
  "imagePath \<lparr>imagePath = Some (js ''/img.jpg''), text' = Some (js ''hello world'')\<rparr> \<noteq> None
   \<and> text' \<lparr>imagePath = Some (js ''/img.jpg''), text' = Some (js ''hello world'')\<rparr> \<noteq> None
   \<and> getFormData (example_platform (net_scenario (Fulfilled (okResponse searchBody))))
        \<lparr>imagePath = Some (js ''/img.jpg''), text' = Some (js ''hello world'')\<rparr>
        (encodeImage_request (js ''clip-base''))
      = (Inr [(js ''entries'', Text (js ''{}'')), (js ''image'', Blob [0xFF, 0xD8])],
         [ReadFile (js ''/img.jpg'')])
   \<and> fst (predict (example_platform (net_scenario (Fulfilled (okResponse searchBody))))
        (js ''http://a;http://b'')
        \<lparr>imagePath = Some (js ''/img.jpg''), text' = Some (js ''hello world'')\<rparr>
        (encodeImage_request (js ''clip-base''))) = Inr searchBody"
  using example_predict_ok [OF example_image_form] by (simp add: example_image_form)

subsection \<open>C10: the candidate list is never empty\<close>

text \<open>
  Claim C10. Splitting any string on the semicolon, the empty string included, gives at
  least one segment, so the list of candidates is never empty and
  \<open>find_working_server\<close> always issues at least one probe, the first of them to the
  first candidate.
\<close>

theorem candidate_list_never_empty:
  "split semicolon url \<noteq> []
   \<and> map trim (split semicolon url) \<noteq> []
   \<and> map trim (split semicolon []) = [[]]
   \<and> requests (snd (find_working_server P url)) \<noteq> []
   \<and> hd (requests (snd (find_working_server P url))) = GET (trim (hd (split semicolon url)))"
proof -
  obtain seg segs where s: "split semicolon url = seg # segs"
    using split_nonempty [of semicolon url] by (cases "split semicolon url") auto
  have "requests (snd (probe_loop P (trim seg # map trim segs)))
        = GET (trim seg) # tl (requests (snd (probe_loop P (trim seg # map trim segs))))"
    by (rule probe_loop_first_request)
  then have "requests (snd (find_working_server P url)) \<noteq> []
     \<and> hd (requests (snd (find_working_server P url))) = GET (trim seg)"
    unfolding find_working_server_def s
    by (metis list.distinct(1) list.sel(1) list.simps(9))
  then show ?thesis using s by (simp add: trim_def)
qed

theorem candidate_list_never_empty_witness:
  "map trim (split semicolon []) = [[]]
   \<and> find_working_server (example_platform net_down) []
       = (Inl (Error noServerMessage),
          [Fetch (GET []),
           Warn (js ''Machine learning request ping to \"\" failed with ECONNREFUSED'')])"
proof -
  have "requests (snd (find_working_server (example_platform net_down) [])) \<noteq> []"
    using candidate_list_never_empty [of "[]" "example_platform net_down"] by blast
  moreover have "find_working_server (example_platform net_down) []
       = (Inl (Error noServerMessage),
          [Fetch (GET []),
           Warn (js ''Machine learning request ping to \"\" failed with ECONNREFUSED'')])"
    by (simp add: find_working_server_def trim_def ping_def example_platform_def net_down_def
        errorPrefix_def js_def dquote_def)
  ultimately show ?thesis by (simp add: trim_def)
qed

end
